theory Spec2Isabelle
  imports Main
begin

section \<open>Strings and the process environment\<close>

text \<open>
  The build script \<^verbatim>\<open>setup.py\<close> works on byte strings of the process environment, on
  POSIX paths and on the argument vectors of the programs it starts. Strings are
  \<^typ>\<open>string\<close>; the environment \<^verbatim>\<open>os.environ\<close> is a map from names to values.
  A character is a byte; text beyond ASCII is UTF-8, which is how Python 3 decodes the
  environment. \<^verbatim>\<open>str.upper\<close> is modelled on ASCII: \<open>upper\<close> changes the letters a..z
  only. \<^verbatim>\<open>str.strip\<close> removes every character for which \<^verbatim>\<open>str.isspace\<close> of Python 3
  holds: the ASCII ones (one byte each) and U+0085, U+00A0, U+1680, U+2000 to U+200A,
  U+2028, U+2029, U+202F, U+205F and U+3000 in their UTF-8 encodings of two or three
  bytes. A byte that is no part of such an encoding is never stripped.
\<close>

type_synonym environ = "string \<rightharpoonup> string"

definition upper_char :: "char \<Rightarrow> char" where
  "upper_char c =
     (case map_of (zip ''abcdefghijklmnopqrstuvwxyz'' ''ABCDEFGHIJKLMNOPQRSTUVWXYZ'') c of
        None \<Rightarrow> c
      | Some u \<Rightarrow> u)"

definition upper :: "string \<Rightarrow> string" where
  "upper s = map upper_char s"

definition is_space :: "char \<Rightarrow> bool" where
  "is_space c = (c \<in> set [CHR '' '', CHR 0x09, CHR 0x0A, CHR 0x0B, CHR 0x0C, CHR 0x0D,
                          CHR 0x1C, CHR 0x1D, CHR 0x1E, CHR 0x1F])"

definition is_space2 :: "char \<Rightarrow> char \<Rightarrow> bool" where
  "is_space2 a b = (a = CHR 0xC2 \<and> b \<in> set [CHR 0x85, CHR 0xA0])"

definition is_space3 :: "char \<Rightarrow> char \<Rightarrow> char \<Rightarrow> bool" where
  "is_space3 a b c =
     ((a = CHR 0xE1 \<and> b = CHR 0x9A \<and> c = CHR 0x80)
      \<or> (a = CHR 0xE2 \<and> b = CHR 0x80
          \<and> c \<in> set [CHR 0x80, CHR 0x81, CHR 0x82, CHR 0x83, CHR 0x84, CHR 0x85, CHR 0x86,
                      CHR 0x87, CHR 0x88, CHR 0x89, CHR 0x8A, CHR 0xA8, CHR 0xA9, CHR 0xAF])
      \<or> (a = CHR 0xE2 \<and> b = CHR 0x81 \<and> c = CHR 0x9F)
      \<or> (a = CHR 0xE3 \<and> b = CHR 0x80 \<and> c = CHR 0x80))"

fun lstrip :: "string \<Rightarrow> string" where
  "lstrip [] = []"
| "lstrip [a] = (if is_space a then [] else [a])"
| "lstrip [a, b] =
     (if is_space a then lstrip [b] else if is_space2 a b then [] else [a, b])"
| "lstrip (a # b # c # s) =
     (if is_space a then lstrip (b # c # s)
      else if is_space2 a b then lstrip (c # s)
      else if is_space3 a b c then lstrip s
      else a # b # c # s)"

text \<open>
  The same from the end, on the reversed string: \<open>a\<close> is the last byte, \<open>b\<close> the one
  before it and \<open>c\<close> the one before that.
\<close>

fun rstrip_rev :: "string \<Rightarrow> string" where
  "rstrip_rev [] = []"
| "rstrip_rev [a] = (if is_space a then [] else [a])"
| "rstrip_rev [a, b] =
     (if is_space a then rstrip_rev [b] else if is_space2 b a then [] else [a, b])"
| "rstrip_rev (a # b # c # s) =
     (if is_space a then rstrip_rev (b # c # s)
      else if is_space2 b a then rstrip_rev (c # s)
      else if is_space3 c b a then rstrip_rev s
      else a # b # c # s)"

definition rstrip :: "string \<Rightarrow> string" where
  "rstrip s = rev (rstrip_rev (rev s))"

definition strip :: "string \<Rightarrow> string" where
  "strip s = rstrip (lstrip s)"

definition startswith :: "string \<Rightarrow> string \<Rightarrow> bool" where
  "startswith s p = (take (length p) s = p)"

text \<open>\<^verbatim>\<open>os.getenv(name, default)\<close>: the value of the variable, the default when it is unset.\<close>

definition getenv :: "environ \<Rightarrow> string \<Rightarrow> string \<Rightarrow> string" where
  "getenv env name dflt = (case env name of None \<Rightarrow> dflt | Some v \<Rightarrow> v)"

text \<open>
  \<^verbatim>\<open>def _check_env_flag(name, default=''):
     return os.getenv(name, default).upper() in ['ON', '1', 'YES', 'TRUE', 'Y']\<close>
\<close>

definition check_env_flag :: "environ \<Rightarrow> string \<Rightarrow> string \<Rightarrow> bool" where
  "check_env_flag env name dflt =
     (upper (getenv env name dflt) \<in> set [''ON'', ''1'', ''YES'', ''TRUE'', ''Y''])"

text \<open>
  The reading of the flag in the words of the specification: true when the value matches
  one of on, 1, yes, true without regard to case, false for every other value and when the
  variable is unset.
\<close>

definition ci_equal :: "string \<Rightarrow> string \<Rightarrow> bool" where
  "ci_equal a b = (upper a = upper b)"

definition spec_flag :: "string option \<Rightarrow> bool" where
  "spec_flag v =
     (case v of None \<Rightarrow> False
      | Some s \<Rightarrow> list_ex (ci_equal s) [''on'', ''1'', ''yes'', ''true''])"

section \<open>Exceptions and results\<close>

text \<open>
  Every exception the script can raise is a value; a computation that may raise returns
  \<open>exc + 'a\<close> with \<open>Inl\<close> for the exception. \<open>SystemExit n\<close> is \<^verbatim>\<open>sys.exit(n)\<close>:
  nothing in the script catches it, so the process ends with status \<open>n\<close>.
\<close>

datatype exc =
    SystemExit int
  | CalledProcessError int "string list"
  | OSError string
  | IOError string
  | RuntimeError string
  | TypeError
  | UnicodeDecodeError

section \<open>POSIX paths\<close>

text \<open>
  The functions of Python's \<^verbatim>\<open>posixpath\<close> that the script calls, after the library's
  own code: \<^verbatim>\<open>str.split\<close>, \<^verbatim>\<open>str.join\<close>, \<^verbatim>\<open>os.path.join\<close>, \<^verbatim>\<open>isabs\<close>,
  \<^verbatim>\<open>normpath\<close>, \<^verbatim>\<open>abspath\<close> (relative to a current directory) and \<^verbatim>\<open>dirname\<close>.
  The script refuses to build on Windows, so only the POSIX flavour is modelled.
\<close>

fun split_on :: "char \<Rightarrow> string \<Rightarrow> string list" where
  "split_on c [] = [[]]"
| "split_on c (x # xs) =
     (if x = c then [] # split_on c xs
      else (case split_on c xs of [] \<Rightarrow> [[x]] | y # ys \<Rightarrow> (x # y) # ys))"

fun join_with :: "string \<Rightarrow> string list \<Rightarrow> string" where
  "join_with sep [] = []"
| "join_with sep [x] = x"
| "join_with sep (x # y # ys) = x @ sep @ join_with sep (y # ys)"

definition isabs :: "string \<Rightarrow> bool" where
  "isabs p = startswith p ''/''"

definition endswith :: "string \<Rightarrow> string \<Rightarrow> bool" where
  "endswith s p = startswith (rev s) (rev p)"

definition join2 :: "string \<Rightarrow> string \<Rightarrow> string" where
  "join2 path b =
     (if startswith b ''/'' then b
      else if path = [] \<or> endswith path ''/'' then path @ b
      else path @ ''/'' @ b)"

definition path_join :: "string \<Rightarrow> string list \<Rightarrow> string" where
  "path_join a ps = foldl join2 a ps"

definition norm_step :: "nat \<Rightarrow> string list \<Rightarrow> string \<Rightarrow> string list" where
  "norm_step initial_slashes new_comps part =
     (if part = [] \<or> part = ''.'' then new_comps
      else if part \<noteq> ''..'' \<or> (initial_slashes = 0 \<and> new_comps = [])
                \<or> (new_comps \<noteq> [] \<and> last new_comps = ''..'')
        then new_comps @ [part]
      else if new_comps \<noteq> [] then butlast new_comps
      else new_comps)"

definition initial_slashes :: "string \<Rightarrow> nat" where
  "initial_slashes path =
     (if startswith path ''/''
      then (if startswith path ''//'' \<and> \<not> startswith path ''///'' then 2 else 1)
      else 0)"

definition normpath :: "string \<Rightarrow> string" where
  "normpath path =
     (if path = [] then ''.''
      else
        let comps = foldl (norm_step (initial_slashes path)) [] (split_on CHR ''/'' path);
            res = replicate (initial_slashes path) CHR ''/'' @ join_with ''/'' comps
        in if res = [] then ''.'' else res)"

definition abspath :: "string \<Rightarrow> string \<Rightarrow> string" where
  "abspath getcwd path = normpath (if isabs path then path else join2 getcwd path)"

definition dirname :: "string \<Rightarrow> string" where
  "dirname p =
     (let head = rev (dropWhile (\<lambda>c. c \<noteq> CHR ''/'') (rev p))
      in if head \<noteq> [] \<and> head \<noteq> replicate (length head) CHR ''/''
         then rev (dropWhile (\<lambda>c. c = CHR ''/'') (rev head))
         else head)"

text \<open>\<^verbatim>\<open>str(n)\<close> for a natural number, and the \<^verbatim>\<open>repr\<close> of a list of plain strings.\<close>

fun str_nat :: "nat \<Rightarrow> string" where
  "str_nat n =
     (if n < 10 then [''0123456789'' ! n]
      else str_nat (n div 10) @ [''0123456789'' ! (n mod 10)])"

definition repr_list :: "string list \<Rightarrow> string" where
  "repr_list xs = ''['' @ join_with '', '' (map (\<lambda>x. [CHR 0x27] @ x @ [CHR 0x27]) xs) @ '']''"

section \<open>The process and its surroundings\<close>

text \<open>
  A program started by the script is recorded with its argument vector, the directory it
  runs in and the environment it is given. The state of the process is its environment,
  its working directory, what it has printed, the directories that exist, the programs
  it has started so far, oldest first, and the extension descriptors (the objects of
  class \<^verbatim>\<open>IPEXExt\<close>, with the four attributes the script gives them) that are alive in
  it. An assignment to an attribute of a descriptor would be an update of that last
  component.
\<close>

record ipex_ext =
  ext_name :: string
  sources :: "string list"
  project_dir :: string
  build_dir :: string

record invocation =
  argv :: "string list"
  run_cwd :: string
  run_env :: environ

record world =
  environ :: environ
  cwd :: string
  stdout :: "string list"
  stderr :: "string list"
  dirs :: "string set"
  started :: "invocation list"
  descriptors :: "ipex_ext list"

text \<open>
  What the script takes from the machine it runs on and does not compute itself: the
  paths of the script, of the installed framework and of the interpreter, the number of
  processors, the platform name, the lookup of executables
  (\<^verbatim>\<open>distutils.spawn.find_executable\<close>), the path \<^verbatim>\<open>get_ext_fullpath\<close> of setuptools, the
  behaviour of every external program (whether it starts, its exit status and its output)
  and whether the interpreter represents two equal strings by one object, which is what
  the operator \<^verbatim>\<open>is\<close> tests.
\<close>

record host =
  script_file :: string
  start_dir :: string
  torch_file :: string
  python_include_dir :: string
  sys_executable :: string
  cpu_count :: nat
  platform_system :: string
  find_executable :: "string \<Rightarrow> string option"
  get_ext_fullpath :: "string \<Rightarrow> string"
  run_program :: "invocation \<Rightarrow> exc + int \<times> string"
  same_object :: bool

type_synonym 'a action = "world \<Rightarrow> (exc + 'a) \<times> world"

definition seq :: "'a action \<Rightarrow> ('a \<Rightarrow> 'b action) \<Rightarrow> 'b action" where
  "seq m f w = (case m w of (Inl e, w') \<Rightarrow> (Inl e, w') | (Inr x, w') \<Rightarrow> f x w')"

definition ret :: "'a \<Rightarrow> 'a action" where
  "ret x w = (Inr x, w)"

definition raise :: "exc \<Rightarrow> 'a action" where
  "raise e w = (Inl e, w)"

definition print :: "string \<Rightarrow> unit action" where
  "print line w = (Inr (), w\<lparr>stdout := stdout w @ [line]\<rparr>)"

definition print_err :: "string \<Rightarrow> unit action" where
  "print_err line w = (Inr (), w\<lparr>stderr := stderr w @ [line]\<rparr>)"

text \<open>
  \<^verbatim>\<open>pytorch_install_dir = os.path.dirname(os.path.abspath(torch.__file__))
  base_dir = os.path.dirname(os.path.abspath(__file__))\<close>
\<close>

definition pytorch_install_dir :: "host \<Rightarrow> string" where
  "pytorch_install_dir h = dirname (abspath (start_dir h) (torch_file h))"

definition base_dir :: "host \<Rightarrow> string" where
  "base_dir h = dirname (abspath (start_dir h) (script_file h))"

text \<open>
  Directories: \<^verbatim>\<open>os.path.exists\<close> and \<^verbatim>\<open>os.path.isdir\<close> look a path up after resolving it
  against the working directory; \<^verbatim>\<open>os.mkdir\<close> raises when the directory exists or its
  parent does not; \<^verbatim>\<open>os.chdir\<close> raises when the target does not exist.
\<close>

definition path_exists :: "world \<Rightarrow> string \<Rightarrow> bool" where
  "path_exists w p = (abspath (cwd w) p \<in> dirs w)"

definition mkdir :: "string \<Rightarrow> unit action" where
  "mkdir p w =
     (let a = abspath (cwd w) p
      in if a \<in> dirs w \<or> dirname a \<notin> dirs w then (Inl (OSError p), w)
         else (Inr (), w\<lparr>dirs := insert a (dirs w)\<rparr>))"

definition chdir :: "string \<Rightarrow> unit action" where
  "chdir p w =
     (let a = abspath (cwd w) p
      in if a \<in> dirs w then (Inr (), w\<lparr>cwd := a\<rparr>) else (Inl (OSError p), w))"

text \<open>
  Starting a program. \<^verbatim>\<open>subprocess.call\<close> returns the exit status,
  \<^verbatim>\<open>subprocess.check_call\<close> raises \<open>CalledProcessError\<close> on a non-zero status and
  \<^verbatim>\<open>subprocess.check_output\<close> does the same and returns the output otherwise. All three
  raise when the program cannot be started. Without \<^verbatim>\<open>cwd=\<close> the child runs in the
  working directory of the process, without \<^verbatim>\<open>env=\<close> in its environment.
\<close>

definition spawn :: "host \<Rightarrow> string list \<Rightarrow> string option \<Rightarrow> environ option
                       \<Rightarrow> (int \<times> string) action" where
  "spawn h args dir env w =
     (let inv = \<lparr>argv = args,
                 run_cwd = (case dir of None \<Rightarrow> cwd w | Some d \<Rightarrow> abspath (cwd w) d),
                 run_env = (case env of None \<Rightarrow> environ w | Some e \<Rightarrow> e)\<rparr>
      in case run_program h inv of
           Inl e \<Rightarrow> (Inl e, w)
         | Inr r \<Rightarrow> (Inr r, w\<lparr>started := started w @ [inv]\<rparr>))"

definition subprocess_call :: "host \<Rightarrow> string list \<Rightarrow> int action" where
  "subprocess_call h args = seq (spawn h args None None) (\<lambda>r. ret (fst r))"

definition check_call :: "host \<Rightarrow> string list \<Rightarrow> string \<Rightarrow> environ \<Rightarrow> unit action" where
  "check_call h args dir env =
     seq (spawn h args (Some dir) (Some env))
       (\<lambda>r. if fst r \<noteq> 0 then raise (CalledProcessError (fst r) args) else ret ())"

definition check_output :: "host \<Rightarrow> string list \<Rightarrow> string \<Rightarrow> string action" where
  "check_output h args dir =
     seq (spawn h args (Some dir) None)
       (\<lambda>r. if fst r \<noteq> 0 then raise (CalledProcessError (fst r) args) else ret (snd r))"

section \<open>Backend selection\<close>

text \<open>
  \<^verbatim>\<open>def _get_env_backend():
     env_backend_var_name = 'IPEX_BACKEND'
     env_backend_options = ['cpu', 'gpu']
     env_backend_val = os.getenv(env_backend_var_name)
     if env_backend_val is None or env_backend_val.strip() == '':
       return 'cpu'
     else:
       if env_backend_val not in env_backend_options:
         print("Intel PyTorch Extension only supports CPU and GPU now.")
         sys.exit(1)
       else:
         return env_backend_val\<close>
\<close>

definition get_env_backend :: "string action" where
  "get_env_backend w =
     (let env_backend_var_name = ''IPEX_BACKEND'';
          env_backend_options = [''cpu'', ''gpu''];
          env_backend_val = environ w env_backend_var_name
      in case env_backend_val of
           None \<Rightarrow> ret ''cpu'' w
         | Some v \<Rightarrow>
             if strip v = [] then ret ''cpu'' w
             else if v \<notin> set env_backend_options
               then seq (print ''Intel PyTorch Extension only supports CPU and GPU now.'')
                        (\<lambda>_. raise (SystemExit 1)) w
               else ret v w)"

section \<open>Version resolution\<close>

text \<open>
  \<^verbatim>\<open>def get_git_head_sha(base_dir):
     ipex_git_sha = subprocess.check_output(['git', 'rev-parse', 'HEAD'],
                                           cwd=base_dir).decode('ascii').strip()
     if os.path.isdir(os.path.join(base_dir, '..', '.git')):
       torch_git_sha = subprocess.check_output(['git', 'rev-parse', 'HEAD'],
                                               cwd=os.path.join(
                                                   base_dir,
                                                   '..')).decode('ascii').strip()
     else:
       torch_git_sha = ''
     return ipex_git_sha, torch_git_sha\<close>
  Nothing here catches an exception: a failing \<^verbatim>\<open>git\<close> raises out of the function.
\<close>

definition decode_ascii :: "string \<Rightarrow> string action" where
  "decode_ascii bs =
     (if list_all (\<lambda>c. (of_char c :: nat) < 128) bs then ret bs else raise UnicodeDecodeError)"

definition get_git_head_sha :: "host \<Rightarrow> string \<Rightarrow> (string \<times> string) action" where
  "get_git_head_sha h base =
     seq (check_output h [''git'', ''rev-parse'', ''HEAD''] base) (\<lambda>out1.
     seq (decode_ascii out1) (\<lambda>txt1.
     let ipex_git_sha = strip txt1 in
     (\<lambda>w.
        if path_exists w (path_join base [''..'', ''.git''])
        then seq (check_output h [''git'', ''rev-parse'', ''HEAD''] (path_join base [''..'']))
               (\<lambda>out2. seq (decode_ascii out2)
                 (\<lambda>txt2. ret (ipex_git_sha, strip txt2))) w
        else ret (ipex_git_sha, []) w)))"

text \<open>
  \<^verbatim>\<open>def get_build_version(ipex_git_sha):
     version = os.getenv('TORCH_IPEX_VERSION', '1.0.0')
     if _check_env_flag('VERSIONED_IPEX_BUILD', default='0'):
       try:
         version += '+' + ipex_git_sha[:7]
       except Exception:
         pass
     return version\<close>
  The argument is whatever object the caller passes. Slicing a string never raises;
  slicing \<^verbatim>\<open>None\<close> raises \<open>TypeError\<close>, which the handler swallows.
\<close>

datatype pyobj = Str string | NoneObj

definition plus_slice7 :: "pyobj \<Rightarrow> exc + string" where
  "plus_slice7 obj = (case obj of Str s \<Rightarrow> Inr (''+'' @ take 7 s) | NoneObj \<Rightarrow> Inl TypeError)"

definition get_build_version :: "environ \<Rightarrow> pyobj \<Rightarrow> string" where
  "get_build_version env ipex_git_sha =
     (let version = getenv env ''TORCH_IPEX_VERSION'' ''1.0.0''
      in if check_env_flag env ''VERSIONED_IPEX_BUILD'' ''0''
         then (case plus_slice7 ipex_git_sha of
                 Inr suffix \<Rightarrow> version @ suffix
               | Inl _ \<Rightarrow> version)
         else version)"

text \<open>
  The two statements at module level that resolve the version, run on every invocation of
  the script before \<^verbatim>\<open>setup\<close> is reached:
  \<^verbatim>\<open>ipex_git_sha, torch_git_sha = get_git_head_sha(base_dir)
  version = get_build_version(ipex_git_sha)\<close>
  The result is the version with the two revision hashes.
\<close>

definition resolve_version :: "host \<Rightarrow> (string \<times> string \<times> string) action" where
  "resolve_version h =
     seq (get_git_head_sha h (base_dir h)) (\<lambda>(ipex_git_sha, torch_git_sha).
     (\<lambda>w. ret (get_build_version (environ w) (Str ipex_git_sha),
                ipex_git_sha, torch_git_sha) w))"

section \<open>Code generation\<close>

text \<open>
  \<^verbatim>\<open>def generate_ipex_cpu_aten_code(base_dir):
     cur_dir = os.path.abspath(os.path.curdir)
     os.chdir(os.path.join(base_dir, 'scripts', 'cpu'))
     cpu_ops_path = os.path.join(base_dir, 'torch_ipex', 'csrc', 'cpu')
     sparse_dec_file_path = os.path.join(base_dir, 'scripts', 'cpu', 'pytorch_headers')
     generate_code_cmd = ['./gen-sparse-cpu-ops.sh', cpu_ops_path, pytorch_install_dir,
                          sparse_dec_file_path]
     if subprocess.call(generate_code_cmd) != 0:
       print("Failed to run '{}'".format(generate_code_cmd), file=sys.stderr)
       os.chdir(cur_dir)
       sys.exit(1)
     generate_code_cmd = ['./gen-dense-cpu-ops.sh', cpu_ops_path, pytorch_install_dir]
     if subprocess.call(generate_code_cmd) != 0:
       print("Failed to run '{}'".format(generate_code_cmd), file=sys.stderr)
       os.chdir(cur_dir)
       sys.exit(1)
     os.chdir(cur_dir)\<close>
\<close>

definition sparse_cmd :: "host \<Rightarrow> string \<Rightarrow> string list" where
  "sparse_cmd h base =
     [''./gen-sparse-cpu-ops.sh'', path_join base [''torch_ipex'', ''csrc'', ''cpu''],
      pytorch_install_dir h, path_join base [''scripts'', ''cpu'', ''pytorch_headers'']]"

definition dense_cmd :: "host \<Rightarrow> string \<Rightarrow> string list" where
  "dense_cmd h base =
     [''./gen-dense-cpu-ops.sh'', path_join base [''torch_ipex'', ''csrc'', ''cpu''],
      pytorch_install_dir h]"

definition failed_to_run :: "string list \<Rightarrow> string" where
  "failed_to_run cmd = ''Failed to run '' @ [CHR 0x27] @ repr_list cmd @ [CHR 0x27]"

definition generate_ipex_cpu_aten_code :: "host \<Rightarrow> string \<Rightarrow> unit action" where
  "generate_ipex_cpu_aten_code h base w0 =
     (let cur_dir = abspath (cwd w0) ''.''
      in seq (chdir (path_join base [''scripts'', ''cpu''])) (\<lambda>_.
         seq (subprocess_call h (sparse_cmd h base)) (\<lambda>status1.
         if status1 \<noteq> 0
         then seq (print_err (failed_to_run (sparse_cmd h base))) (\<lambda>_.
              seq (chdir cur_dir) (\<lambda>_. raise (SystemExit 1)))
         else
         seq (subprocess_call h (dense_cmd h base)) (\<lambda>status2.
         if status2 \<noteq> 0
         then seq (print_err (failed_to_run (dense_cmd h base))) (\<lambda>_.
              seq (chdir cur_dir) (\<lambda>_. raise (SystemExit 1)))
         else chdir cur_dir))) w0)"

section \<open>The extension descriptor\<close>

text \<open>
  \<^verbatim>\<open>class IPEXExt(Extension, object):
     def __init__(self, name, project_dir=os.path.dirname(__file__)):
       Extension.__init__(self, name, sources=[])
       self.project_dir = os.path.abspath(project_dir)
       self.build_dir = os.path.join(project_dir, 'build')\<close>
  \<open>project_dir\<close> is made absolute against the working directory at construction;
  \<open>build_dir\<close> is joined from the argument as it was passed.
\<close>

definition IPEXExt :: "string \<Rightarrow> string \<Rightarrow> string \<Rightarrow> ipex_ext" where
  "IPEXExt getcwd nm project_dir_arg =
     \<lparr>ext_name = nm, sources = [],
      project_dir = abspath getcwd project_dir_arg,
      build_dir = path_join project_dir_arg [''build'']\<rparr>"

text \<open>\<^verbatim>\<open>ext_modules=[IPEXExt('_torch_ipex')]\<close>, with the default \<^verbatim>\<open>os.path.dirname(__file__)\<close>.\<close>

definition ext_modules :: "host \<Rightarrow> ipex_ext list" where
  "ext_modules h = [IPEXExt (start_dir h) ''_torch_ipex'' (dirname (script_file h))]"

section \<open>The native build\<close>

text \<open>
  \<^verbatim>\<open>def build_extension(self, ext):
     ext_dir = os.path.abspath(os.path.dirname(self.get_ext_fullpath(ext.name)))
     if not os.path.exists(ext.build_dir):
       os.mkdir(ext.build_dir)
     build_type = 'Release'
     use_ninja = False
     if _check_env_flag('DEBUG'):
       build_type = 'Debug'
     # install _torch_ipex.so as python module
     if ext.name is 'torch_ipex' and _check_env_flag("USE_SYCL"):
       ext_dir = ext_dir + '/torch_ipex'
     cmake_args = [
             '-DCMAKE_BUILD_TYPE=' + build_type,
             '-DPYTORCH_INSTALL_DIR=' + pytorch_install_dir,
             '-DPYTHON_EXECUTABLE=' + sys.executable,
             '-DCMAKE_INSTALL_PREFIX=' + ext_dir,
             '-DCMAKE_LIBRARY_OUTPUT_DIRECTORY=' + ext_dir,
             '-DPYTHON_INCLUDE_DIR=' + python_include_dir,
         ]
     if _check_env_flag("USE_SYCL"):
       cmake_args += ['-DUSE_SYCL=1']
     if _check_env_flag("DPCPP_ENABLE_PROFILING"):
       cmake_args += ['-DDPCPP_ENABLE_PROFILING=1']
     if _check_env_flag("USE_NINJA"):
       use_ninja = True
       cmake_args += ['-GNinja']
     build_args = ['-j', str(multiprocessing.cpu_count())]
     env = os.environ.copy()
     if _check_env_flag("USE_SYCL"):
       os.environ['CXX'] = 'compute++'
       check_call([self.cmake, ext.project_dir] + cmake_args, cwd=ext.build_dir, env=env)
     else:
       check_call([self.cmake, ext.project_dir] + cmake_args, cwd=ext.build_dir, env=env)
     if use_ninja:
       check_call(['ninja'] + build_args, cwd=ext.build_dir, env=env)
     else:
       check_call(['make'] + build_args, cwd=ext.build_dir, env=env)\<close>
  The pieces of the function are named so that each can be read on its own. \<open>x is y\<close>
  on two strings holds only for equal strings, and for those only when the interpreter
  keeps one object for both.
\<close>

definition py_is :: "host \<Rightarrow> string \<Rightarrow> string \<Rightarrow> bool" where
  "py_is h a b = (a = b \<and> same_object h)"

definition ext_dir_of :: "host \<Rightarrow> world \<Rightarrow> ipex_ext \<Rightarrow> string" where
  "ext_dir_of h w ext =
     (let ext_dir = abspath (cwd w) (dirname (get_ext_fullpath h (ext_name ext)))
      in if py_is h (ext_name ext) ''torch_ipex'' \<and> check_env_flag (environ w) ''USE_SYCL'' []
         then ext_dir @ ''/torch_ipex''
         else ext_dir)"

definition cmake_args :: "host \<Rightarrow> world \<Rightarrow> ipex_ext \<Rightarrow> string list" where
  "cmake_args h w ext =
     (let build_type = (if check_env_flag (environ w) ''DEBUG'' [] then ''Debug'' else ''Release'');
          ext_dir = ext_dir_of h w ext
      in [''-DCMAKE_BUILD_TYPE='' @ build_type,
          ''-DPYTORCH_INSTALL_DIR='' @ pytorch_install_dir h,
          ''-DPYTHON_EXECUTABLE='' @ sys_executable h,
          ''-DCMAKE_INSTALL_PREFIX='' @ ext_dir,
          ''-DCMAKE_LIBRARY_OUTPUT_DIRECTORY='' @ ext_dir,
          ''-DPYTHON_INCLUDE_DIR='' @ python_include_dir h]
         @ (if check_env_flag (environ w) ''USE_SYCL'' [] then [''-DUSE_SYCL=1''] else [])
         @ (if check_env_flag (environ w) ''DPCPP_ENABLE_PROFILING'' []
            then [''-DDPCPP_ENABLE_PROFILING=1''] else [])
         @ (if check_env_flag (environ w) ''USE_NINJA'' [] then [''-GNinja''] else []))"

definition setenv :: "string \<Rightarrow> string \<Rightarrow> unit action" where
  "setenv k v w = (Inr (), w\<lparr>environ := (environ w)(k \<mapsto> v)\<rparr>)"

definition build_extension :: "host \<Rightarrow> string \<Rightarrow> ipex_ext \<Rightarrow> unit action" where
  "build_extension h cmake ext =
     seq (\<lambda>w. if \<not> path_exists w (build_dir ext) then mkdir (build_dir ext) w else ret () w)
       (\<lambda>_ w.
          let args = cmake_args h w ext;
              use_ninja = check_env_flag (environ w) ''USE_NINJA'' [];
              build_args = [''-j'', str_nat (cpu_count h)];
              env = environ w
          in seq (if check_env_flag (environ w) ''USE_SYCL'' []
                  then seq (setenv ''CXX'' ''compute++'')
                         (\<lambda>_. check_call h ([cmake, project_dir ext] @ args) (build_dir ext) env)
                  else check_call h ([cmake, project_dir ext] @ args) (build_dir ext) env)
               (\<lambda>_. if use_ninja
                     then check_call h ([''ninja''] @ build_args) (build_dir ext) env
                     else check_call h ([''make''] @ build_args) (build_dir ext) env) w)"

text \<open>
  \<^verbatim>\<open>def run(self):
     print("run")
     # Generate the code before globbing!
     generate_ipex_cpu_aten_code(base_dir)
     cmake = find_executable('cmake3') or find_executable('cmake')
     if cmake is None:
       raise RuntimeError(
           "CMake must be installed to build the following extensions: " +
               ", ".join(e.name for e in self.extensions))
     self.cmake = cmake
     if platform.system() == "Windows":
       raise RuntimeError("Does not support windows")
     for ext in self.extensions:
       self.build_extension(ext)\<close>
  The command object keeps its list of extensions; the run returns it with the state, so
  that what the build does to the descriptors can be stated.
\<close>

definition py_or :: "string option \<Rightarrow> string option \<Rightarrow> string option" where
  "py_or a b = (case a of None \<Rightarrow> b | Some x \<Rightarrow> if x = [] then b else Some x)"

fun build_all :: "host \<Rightarrow> string \<Rightarrow> ipex_ext list \<Rightarrow> unit action" where
  "build_all h cmake [] = ret ()"
| "build_all h cmake (ext # exts) =
     seq (build_extension h cmake ext) (\<lambda>_. build_all h cmake exts)"

definition IPEXBuild_run :: "host \<Rightarrow> ipex_ext list \<Rightarrow> (ipex_ext list) action" where
  "IPEXBuild_run h extensions =
     seq (print ''run'') (\<lambda>_.
     seq (generate_ipex_cpu_aten_code h (base_dir h)) (\<lambda>_.
     case py_or (find_executable h ''cmake3'') (find_executable h ''cmake'') of
       None \<Rightarrow> raise (RuntimeError
                 (''CMake must be installed to build the following extensions: ''
                  @ join_with '', '' (map ext_name extensions)))
     | Some cmake \<Rightarrow>
         if platform_system h = ''Windows'' then raise (RuntimeError ''Does not support windows'')
         else seq (build_all h cmake extensions) (\<lambda>_. ret extensions)))"

section \<open>The clean hook\<close>

text \<open>
  \<^verbatim>\<open>def run(self):
     import glob
     import re
     with open('.gitignore', 'r') as f:
       ignores = f.read()
       pat = re.compile(r'^#( BEGIN NOT-CLEAN-FILES )?')
       for wildcard in filter(None, ignores.split('\n')):
         match = pat.match(wildcard)
         if match:
           if match.group(1):
             # Marker is found and stop reading .gitignore.
             break
           # Ignore lines which begin with '#'.
         else:
           for filename in glob.glob(wildcard):
             try:
               os.remove(filename)
             except OSError:
               shutil.rmtree(filename, ignore_errors=True)
     # It's an old-style class in Python 2.7...
     distutils.command.clean.clean.run(self)\<close>
  The file system is a parameter of the model, with the operations the hook calls on it:
  reading a text file, \<^verbatim>\<open>glob.glob\<close>, \<^verbatim>\<open>os.remove\<close> (\<open>None\<close> when it raises
  \<open>OSError\<close>), \<^verbatim>\<open>shutil.rmtree\<close> with errors ignored, and the \<^verbatim>\<open>run\<close> of the
  \<^verbatim>\<open>clean\<close> command of distutils. The hook's calls are logged in order.
\<close>

record 'fs fs_ops =
  read_text :: "'fs \<Rightarrow> string \<Rightarrow> exc + string"
  glob_glob :: "'fs \<Rightarrow> string \<Rightarrow> string list"
  os_remove :: "'fs \<Rightarrow> string \<Rightarrow> 'fs option"
  shutil_rmtree :: "'fs \<Rightarrow> string \<Rightarrow> 'fs"
  distutils_clean_run :: "'fs \<Rightarrow> exc + 'fs"

datatype clean_event = Globbed string | Removed string | Rmtree string

text \<open>
  The pattern \<^verbatim>\<open>^#( BEGIN NOT-CLEAN-FILES )?\<close> matched at the start of a line: no match
  when the line does not begin with \<open>#\<close>; otherwise a match whose group 1 is the marker
  text when the line goes on with it, and unset when it does not.
\<close>

definition pat_match :: "string \<Rightarrow> string option option" where
  "pat_match line =
     (if startswith line ''#''
      then (if startswith (tl line) '' BEGIN NOT-CLEAN-FILES ''
            then Some (Some '' BEGIN NOT-CLEAN-FILES '')
            else Some None)
      else None)"

definition truthy :: "string option \<Rightarrow> bool" where
  "truthy g = (case g of None \<Rightarrow> False | Some s \<Rightarrow> s \<noteq> [])"

fun remove_each :: "'fs fs_ops \<Rightarrow> string list \<Rightarrow> 'fs \<times> clean_event list
                      \<Rightarrow> 'fs \<times> clean_event list" where
  "remove_each ops [] st = st"
| "remove_each ops (filename # rest) (fs, log) =
     (case os_remove ops fs filename of
        Some fs' \<Rightarrow> remove_each ops rest (fs', log @ [Removed filename])
      | None \<Rightarrow> remove_each ops rest (shutil_rmtree ops fs filename, log @ [Rmtree filename]))"

fun clean_loop :: "'fs fs_ops \<Rightarrow> string list \<Rightarrow> 'fs \<times> clean_event list
                     \<Rightarrow> 'fs \<times> clean_event list" where
  "clean_loop ops [] st = st"
| "clean_loop ops (wildcard # rest) (fs, log) =
     (case pat_match wildcard of
        Some g \<Rightarrow> if truthy g then (fs, log) else clean_loop ops rest (fs, log)
      | None \<Rightarrow>
          clean_loop ops rest
            (remove_each ops (glob_glob ops fs wildcard) (fs, log @ [Globbed wildcard])))"

definition ignore_lines :: "string \<Rightarrow> string list" where
  "ignore_lines ignores = filter (\<lambda>l. l \<noteq> []) (split_on CHR 0x0A ignores)"

definition IPEXClean_run :: "'fs fs_ops \<Rightarrow> 'fs \<Rightarrow> (exc + unit) \<times> 'fs \<times> clean_event list" where
  "IPEXClean_run ops fs =
     (case read_text ops fs ''.gitignore'' of
        Inl e \<Rightarrow> (Inl e, fs, [])
      | Inr ignores \<Rightarrow>
          (case clean_loop ops (ignore_lines ignores) (fs, []) of
             (fs1, log) \<Rightarrow>
               (case distutils_clean_run ops fs1 of
                  Inl e \<Rightarrow> (Inl e, fs1, log)
                | Inr fs2 \<Rightarrow> (Inr (), fs2, log))))"

text \<open>
  A small file system for examples: the names that exist in one flat directory, and
  patterns in which \<open>*\<close> stands for any run of characters and \<open>?\<close> for one.
\<close>

fun wild_match :: "string \<Rightarrow> string \<Rightarrow> bool" where
  "wild_match [] [] = True"
| "wild_match [] (c # cs) = False"
| "wild_match (p # ps) [] = (p = CHR ''*'' \<and> wild_match ps [])"
| "wild_match (p # ps) (c # cs) =
     (if p = CHR ''*'' then wild_match ps (c # cs) \<or> wild_match (p # ps) cs
      else (p = CHR ''?'' \<or> p = c) \<and> wild_match ps cs)"

definition flat_ops :: "string \<Rightarrow> (string list) fs_ops" where
  "flat_ops gitignore =
     \<lparr>read_text = (\<lambda>fs p. if p = ''.gitignore'' then Inr gitignore else Inl (IOError p)),
      glob_glob = (\<lambda>fs p. filter (wild_match p) fs),
      os_remove = (\<lambda>fs f. if f \<in> set fs then Some (removeAll f fs) else None),
      shutil_rmtree = (\<lambda>fs f. removeAll f fs),
      distutils_clean_run = (\<lambda>fs. Inr fs)\<rparr>"

section \<open>Example machines\<close>

text \<open>
  Concrete surroundings for the examples below: the script is started as
  \<^verbatim>\<open>python setup.py\<close> in \<^verbatim>\<open>/work\<close>, only \<^verbatim>\<open>cmake\<close> is installed, and every program
  exits with status 0 and prints a revision hash. The variants make \<^verbatim>\<open>git\<close> or the
  sparse generator fail.
\<close>

definition example_host :: host where
  "example_host =
     \<lparr>script_file = ''setup.py'', start_dir = ''/work'',
      torch_file = ''/py/torch/__init__.py'',
      python_include_dir = ''/usr/include/python3'',
      sys_executable = ''/usr/bin/python'', cpu_count = 8,
      platform_system = ''Linux'',
      find_executable = (\<lambda>n. if n = ''cmake'' then Some ''/usr/bin/cmake'' else None),
      get_ext_fullpath = (\<lambda>n. ''build/lib/'' @ n @ ''.so''),
      run_program = (\<lambda>i. Inr (0, ''0123456789abcdef0123456789abcdef01234567'' @ [CHR 0x0A])),
      same_object = True\<rparr>"

definition example_world :: "environ \<Rightarrow> world" where
  "example_world env =
     \<lparr>environ = env, cwd = ''/work'', stdout = [], stderr = [],
      dirs = {''/work'', ''/work/scripts/cpu''}, started = [],
      descriptors = ext_modules example_host\<rparr>"

definition failing_git_host :: host where
  "failing_git_host =
     example_host\<lparr>run_program :=
       (\<lambda>i. if take 1 (argv i) = [''git''] then Inr (128, []) else Inr (0, []))\<rparr>"

definition failing_sparse_host :: host where
  "failing_sparse_host =
     example_host\<lparr>run_program :=
       (\<lambda>i. if take 1 (argv i) = [''./gen-sparse-cpu-ops.sh''] then Inr (2, [])
            else Inr (0, []))\<rparr>"

text \<open>
  The working directory as the operating system reports it: an absolute path that
  normalisation leaves alone and that names an existing directory.
\<close>

definition canonical_cwd :: "world \<Rightarrow> bool" where
  "canonical_cwd w = (isabs (cwd w) \<and> normpath (cwd w) = cwd w \<and> cwd w \<in> dirs w)"

section \<open>Reading the log of the clean hook\<close>

text \<open>
  The two kinds of line the hook tells apart, and the patterns and the deletion targets
  in a log. Then what deleting means, said without the loop: an entry is deleted by
  \<^verbatim>\<open>os.remove\<close>, and by \<^verbatim>\<open>shutil.rmtree\<close> when that raises; a pattern is swept by
  deleting in turn every name its glob returns; \<open>sweep\<close> is the file system left after
  a list of patterns and \<open>targets\<close> the names deleted on the way, each glob taken in
  the file system its predecessors left.
\<close>

definition is_comment :: "string \<Rightarrow> bool" where
  "is_comment line = startswith line ''#''"

definition is_marker :: "string \<Rightarrow> bool" where
  "is_marker line = startswith line ''# BEGIN NOT-CLEAN-FILES ''"

fun globbed :: "clean_event list \<Rightarrow> string list" where
  "globbed [] = []"
| "globbed (Globbed p # es) = p # globbed es"
| "globbed (e # es) = globbed es"

fun deleted :: "clean_event list \<Rightarrow> string list" where
  "deleted [] = []"
| "deleted (Globbed p # es) = deleted es"
| "deleted (Removed f # es) = f # deleted es"
| "deleted (Rmtree f # es) = f # deleted es"

definition delete_entry :: "'fs fs_ops \<Rightarrow> 'fs \<Rightarrow> string \<Rightarrow> 'fs" where
  "delete_entry ops fs f =
     (case os_remove ops fs f of Some fs' \<Rightarrow> fs' | None \<Rightarrow> shutil_rmtree ops fs f)"

definition delete_matches :: "'fs fs_ops \<Rightarrow> 'fs \<Rightarrow> string \<Rightarrow> 'fs" where
  "delete_matches ops fs p = foldl (delete_entry ops) fs (glob_glob ops fs p)"

definition sweep :: "'fs fs_ops \<Rightarrow> 'fs \<Rightarrow> string list \<Rightarrow> 'fs" where
  "sweep ops fs ps = foldl (delete_matches ops) fs ps"

fun targets :: "'fs fs_ops \<Rightarrow> 'fs \<Rightarrow> string list \<Rightarrow> string list" where
  "targets ops fs [] = []"
| "targets ops fs (p # ps) = glob_glob ops fs p @ targets ops (delete_matches ops fs p) ps"

definition patterns_read :: "string list \<Rightarrow> string list" where
  "patterns_read ls = filter (\<lambda>l. \<not> is_comment l) (takeWhile (\<lambda>l. \<not> is_marker l) ls)"



definition blank_line_gitignore :: string where
  "blank_line_gitignore = ''  '' @ [CHR 0x0A] @ ''a.o''"

definition commented_gitignore :: string where
  "commented_gitignore =
     ''a.o'' @ [CHR 0x0A] @ [CHR 0x0A] @
     ''  '' @ [CHR 0x0A] @
     ''# BEGIN NOT-CLEAN-FILES'' @ [CHR 0x0A] @
     ''b.?'' @ [CHR 0x0A] @
     ''#c.o'' @ [CHR 0x0A] @
     ''# BEGIN NOT-CLEAN-FILES '' @ [CHR 0x0A] @
     ''d.o''"

section \<open>Unfolding rules\<close>

lemmas path_defs = abspath_def normpath_def initial_slashes_def isabs_def startswith_def endswith_def join2_def
  path_join_def norm_step_def dirname_def

lemmas act_defs = seq_def ret_def raise_def print_def print_err_def

lemmas str_defs = strip_def rstrip_def is_space_def is_space2_def is_space3_def upper_def
  upper_char_def

section \<open>Properties of the boolean flags\<close>

text \<open>
  C5, as stated: a flag is true exactly when its value matches one of on, 1, yes, true
  without regard to case. The code accepts a fifth spelling: with \<^verbatim>\<open>USE_SYCL=y\<close> the flag
  is true, and the stated rule says false.
\<close>

theorem check_env_flag_y_counterexample:
  "check_env_flag [''USE_SYCL'' \<mapsto> ''y''] ''USE_SYCL'' [] \<and>
   \<not> spec_flag ([''USE_SYCL'' \<mapsto> ''y''] ''USE_SYCL'')"
  by (simp add: check_env_flag_def spec_flag_def ci_equal_def getenv_def str_defs)

text \<open>
  C5, amended: a flag is true exactly when its value, or the default passed by the caller
  when the variable is unset, matches one of on, 1, yes, true, y without regard to case.
  With the defaults the script passes (the empty string and \<open>0\<close>) an unset variable gives
  false.
\<close>

theorem check_env_flag_amended:
  "check_env_flag env nm d =
     list_ex (ci_equal (getenv env nm d)) [''on'', ''1'', ''yes'', ''true'', ''y'']
   \<and> (env nm = None \<longrightarrow> d = [] \<or> d = ''0'' \<longrightarrow> \<not> check_env_flag env nm d)"
  by (auto simp add: check_env_flag_def ci_equal_def getenv_def str_defs)

theorem check_env_flag_amended_witness:
  "Map.empty ''VERSIONED_IPEX_BUILD'' = None \<and>
   \<not> check_env_flag Map.empty ''VERSIONED_IPEX_BUILD'' ''0'' \<and>
   check_env_flag [''USE_NINJA'' \<mapsto> ''Yes''] ''USE_NINJA'' [] \<and>
   list_ex (ci_equal (getenv [''USE_NINJA'' \<mapsto> ''Yes''] ''USE_NINJA'' []))
     [''on'', ''1'', ''yes'', ''true'', ''y'']"
  using check_env_flag_amended [of Map.empty "''VERSIONED_IPEX_BUILD''" "''0''"]
        check_env_flag_amended [of "[''USE_NINJA'' \<mapsto> ''Yes'']" "''USE_NINJA''" "[]"]
  by (simp add: ci_equal_def getenv_def str_defs)

section \<open>Properties of version resolution\<close>

lemma environ_spawn: "environ (snd (spawn h args d e w)) = environ w"
  by (simp add: spawn_def Let_def split: sum.splits)

lemma environ_check_output: "environ (snd (check_output h args d w)) = environ w"
  using environ_spawn [of h args "Some d" None w]
  by (auto simp add: check_output_def act_defs split: sum.splits prod.splits)

lemma environ_get_git_head_sha: "environ (snd (get_git_head_sha h b w)) = environ w"
proof -
  have a: "\<And>args d f w. (\<And>x w'. environ (snd (f x w')) = environ w')
             \<Longrightarrow> environ (snd (seq (check_output h args d) f w)) = environ w"
    using environ_check_output
    by (auto simp add: seq_def split: sum.splits prod.splits) (metis snd_conv)+
  have b: "\<And>bs f w. (\<And>x w'. environ (snd (f x w')) = environ w')
             \<Longrightarrow> environ (snd (seq (decode_ascii bs) f w)) = environ w"
    by (auto simp add: seq_def decode_ascii_def ret_def raise_def split: sum.splits prod.splits)
  show ?thesis
    unfolding get_git_head_sha_def
    by (rule a, rule b) (auto simp add: Let_def ret_def intro!: a b)
qed

text \<open>
  C8: with the versioned-build flag true and the revision hash of the project resolved to
  a string of 40 characters, the version is the base version, a plus sign and the first
  seven characters of the hash.
\<close>

theorem versioned_build_suffix:
  assumes "fst (get_git_head_sha h (base_dir h) w) = Inr (sha, tsha)"
    and "check_env_flag (environ w) ''VERSIONED_IPEX_BUILD'' ''0''"
    and "length sha = 40"
  shows "fst (resolve_version h w) =
           Inr (getenv (environ w) ''TORCH_IPEX_VERSION'' ''1.0.0'' @ ''+'' @ take 7 sha,
                sha, tsha)
         \<and> length (take 7 sha) = 7"
proof -
  obtain w' where g: "get_git_head_sha h (base_dir h) w = (Inr (sha, tsha), w')"
    using assms(1) by (cases "get_git_head_sha h (base_dir h) w") auto
  have e: "environ w' = environ w"
    using environ_get_git_head_sha [of h "base_dir h" w] g by simp
  have "fst (resolve_version h w) = Inr (get_build_version (environ w) (Str sha), sha, tsha)"
    by (simp add: resolve_version_def seq_def ret_def g e)
  moreover have "get_build_version (environ w) (Str sha) =
      getenv (environ w) ''TORCH_IPEX_VERSION'' ''1.0.0'' @ ''+'' @ take 7 sha"
    using assms(2) by (simp add: get_build_version_def plus_slice7_def)
  ultimately show ?thesis using assms(3) by simp
qed

theorem versioned_build_suffix_witness:
  "fst (get_git_head_sha example_host (base_dir example_host)
          (example_world [''VERSIONED_IPEX_BUILD'' \<mapsto> ''1'']))
     = Inr (''0123456789abcdef0123456789abcdef01234567'', [])
   \<and> check_env_flag (environ (example_world [''VERSIONED_IPEX_BUILD'' \<mapsto> ''1'']))
         ''VERSIONED_IPEX_BUILD'' ''0''
   \<and> length ''0123456789abcdef0123456789abcdef01234567'' = 40
   \<and> fst (resolve_version example_host (example_world [''VERSIONED_IPEX_BUILD'' \<mapsto> ''1'']))
     = Inr (''1.0.0+0123456'', ''0123456789abcdef0123456789abcdef01234567'', [])"
proof -
  let ?w = "example_world [''VERSIONED_IPEX_BUILD'' \<mapsto> ''1'']"
  let ?sha = "''0123456789abcdef0123456789abcdef01234567''"
  have h1: "fst (get_git_head_sha example_host (base_dir example_host) ?w) = Inr (?sha, [])"
    by code_simp
  have h2: "check_env_flag (environ ?w) ''VERSIONED_IPEX_BUILD'' ''0''"
    by code_simp
  have h3: "length ?sha = 40" by simp
  have h4: "getenv (environ ?w) ''TORCH_IPEX_VERSION'' ''1.0.0'' = ''1.0.0''"
    by (simp add: getenv_def example_world_def)
  show ?thesis
    using versioned_build_suffix [OF h1 h2 h3] h1 h2 h4 by simp
qed

text \<open>
  What the handler in \<^verbatim>\<open>get_build_version\<close> does swallow: an argument that cannot be
  sliced leaves the base version. What it cannot swallow: \<^verbatim>\<open>get_git_head_sha\<close> is called
  at module level, outside any handler, so a failing \<^verbatim>\<open>git\<close> raises out of the script
  before \<^verbatim>\<open>get_build_version\<close> starts, whatever the flag says.
\<close>

lemma get_build_version_swallows_TypeError:
  "get_build_version env NoneObj = getenv env ''TORCH_IPEX_VERSION'' ''1.0.0''"
  by (simp add: get_build_version_def plus_slice7_def Let_def)

lemma resolve_version_raises:
  assumes "fst (check_output h [''git'', ''rev-parse'', ''HEAD''] (base_dir h) w) = Inl e"
  shows "fst (resolve_version h w) = Inl e"
  using assms
  by (auto simp add: resolve_version_def get_git_head_sha_def seq_def
           split: sum.splits prod.splits)

text \<open>
  C2 says that with the versioned-build flag true a failure to obtain the revision hash is
  swallowed and the base version results. On a machine where \<^verbatim>\<open>git rev-parse HEAD\<close> exits
  with status 128 and \<^verbatim>\<open>VERSIONED_IPEX_BUILD=1\<close>, version resolution raises
  \<open>CalledProcessError\<close> instead.
\<close>

theorem resolve_version_git_failure:
  "fst (resolve_version failing_git_host (example_world [''VERSIONED_IPEX_BUILD'' \<mapsto> ''1'']))
     = Inl (CalledProcessError 128 [''git'', ''rev-parse'', ''HEAD''])"
  by code_simp

section \<open>Properties of the native build\<close>

text \<open>
  The module the script declares is named \<^verbatim>\<open>_torch_ipex\<close>; the test in
  \<^verbatim>\<open>build_extension\<close> compares the name with \<^verbatim>\<open>torch_ipex\<close>. For the declared module
  the output directory is therefore never extended, whatever the flag and whatever the
  interpreter does with equal strings.
\<close>

lemma ext_dir_of_primary_module:
  "ext_name ext = ''_torch_ipex'' \<Longrightarrow>
   ext_dir_of h w ext = abspath (cwd w) (dirname (get_ext_fullpath h ''_torch_ipex''))"
  by (simp add: ext_dir_of_def py_is_def)

text \<open>
  C3 says that with \<^verbatim>\<open>USE_SYCL\<close> true the install prefix and the library output
  directory passed to \<^verbatim>\<open>cmake\<close> for the primary native module end with
  \<^verbatim>\<open>torch_ipex\<close>. On the example machine with \<^verbatim>\<open>USE_SYCL=1\<close> the third program started
  by the build is \<^verbatim>\<open>cmake\<close> for the module \<^verbatim>\<open>_torch_ipex\<close>, and both arguments are
  \<^verbatim>\<open>/work/build/lib\<close>.
\<close>

theorem sycl_install_prefix_not_module_scoped:
  "map ext_name (ext_modules example_host) = [''_torch_ipex'']
   \<and> check_env_flag (environ (example_world [''USE_SYCL'' \<mapsto> ''1''])) ''USE_SYCL'' []
   \<and> argv (started (snd (IPEXBuild_run example_host (ext_modules example_host)
          (example_world [''USE_SYCL'' \<mapsto> ''1'']))) ! 2) =
        [''/usr/bin/cmake'', ''/work'', ''-DCMAKE_BUILD_TYPE=Release'',
         ''-DPYTORCH_INSTALL_DIR=/py/torch'', ''-DPYTHON_EXECUTABLE=/usr/bin/python'',
         ''-DCMAKE_INSTALL_PREFIX=/work/build/lib'',
         ''-DCMAKE_LIBRARY_OUTPUT_DIRECTORY=/work/build/lib'',
         ''-DPYTHON_INCLUDE_DIR=/usr/include/python3'', ''-DUSE_SYCL=1'']"
  by code_simp

text \<open>
  C4 says that with \<^verbatim>\<open>USE_SYCL\<close> true the configure step runs with \<^verbatim>\<open>CXX\<close> set to
  \<^verbatim>\<open>compute++\<close> in the environment passed to it. The environment passed is the copy taken
  before \<^verbatim>\<open>os.environ['CXX']\<close> is assigned: on the example machine with \<^verbatim>\<open>USE_SYCL=1\<close>
  and \<^verbatim>\<open>CXX\<close> unset, \<^verbatim>\<open>cmake\<close> is started without \<^verbatim>\<open>CXX\<close>, while the environment of the
  process itself ends with \<^verbatim>\<open>CXX=compute++\<close>.
\<close>

theorem sycl_configure_env_without_cxx:
  "check_env_flag (environ (example_world [''USE_SYCL'' \<mapsto> ''1''])) ''USE_SYCL'' []
   \<and> take 2 (argv (started (snd (IPEXBuild_run example_host (ext_modules example_host)
          (example_world [''USE_SYCL'' \<mapsto> ''1'']))) ! 2)) = [''/usr/bin/cmake'', ''/work'']
   \<and> run_env (started (snd (IPEXBuild_run example_host (ext_modules example_host)
          (example_world [''USE_SYCL'' \<mapsto> ''1'']))) ! 2) ''CXX'' = None
   \<and> environ (snd (IPEXBuild_run example_host (ext_modules example_host)
          (example_world [''USE_SYCL'' \<mapsto> ''1'']))) ''CXX'' = Some ''compute++''"
  by code_simp

section \<open>Properties of code generation\<close>

text \<open>
  Asking for the absolute path of \<^verbatim>\<open>.\<close> in a canonical working directory gives that
  directory: the component \<^verbatim>\<open>.\<close> that \<^verbatim>\<open>os.path.join\<close> appends is dropped again by
  \<^verbatim>\<open>normpath\<close>.
\<close>

lemma split_on_nonempty: "split_on s a \<noteq> []"
  by (induction a) (auto split: list.splits)

lemma split_on_append: "split_on s (a @ s # b) = split_on s a @ split_on s b"
  by (induction a) (auto split: list.splits simp add: split_on_nonempty)

lemma initial_slashes_dot:
  "c \<noteq> [] \<Longrightarrow> \<not> endswith c ''/'' \<Longrightarrow> initial_slashes (c @ ''/.'') = initial_slashes c"
  apply (cases c; simp add: initial_slashes_def startswith_def endswith_def)
  subgoal for x xs
    apply (cases xs; simp)
    subgoal for y ys
      by (cases ys; auto)
    done
  done

lemma initial_slashes_slash_dot:
  "initial_slashes (c @ ''/.'') = initial_slashes (c @ ''/'')"
  apply (cases c; simp add: initial_slashes_def startswith_def)
  subgoal for x xs
    apply (cases xs; simp)
    subgoal for y ys
      by (cases ys; auto)
    done
  done

lemma comps_dot:
  "foldl (norm_step k) [] (split_on CHR ''/'' (d @ ''/.'')) =
   foldl (norm_step k) [] (split_on CHR ''/'' d)"
  using split_on_append [of "CHR ''/''" d "''.''"] by (simp add: norm_step_def)

lemma comps_slash:
  "foldl (norm_step k) [] (split_on CHR ''/'' (d @ ''/'')) =
   foldl (norm_step k) [] (split_on CHR ''/'' d)"
  using split_on_append [of "CHR ''/''" d "[]"] by (simp add: norm_step_def)

lemma normpath_join_dot:
  assumes "c \<noteq> []"
  shows "normpath (join2 c ''.'') = normpath c"
proof (cases "endswith c ''/''")
  case True
  then obtain d where d: "c = d @ ''/''"
    by (cases c rule: rev_cases) (auto simp add: endswith_def startswith_def)
  have "join2 c ''.'' = d @ ''/.''"
    using True by (simp add: join2_def startswith_def d)
  then show ?thesis
    using initial_slashes_slash_dot [of d] comps_dot [of _ d] comps_slash [of _ d]
    by (simp add: normpath_def d)
next
  case False
  have "join2 c ''.'' = c @ ''/.''"
    using False assms by (simp add: join2_def startswith_def)
  then show ?thesis
    using initial_slashes_dot [OF assms False] comps_dot [of _ c] assms
    by (simp add: normpath_def)
qed

lemma abspath_curdir:
  assumes "isabs c" and "normpath c = c"
  shows "abspath c ''.'' = c"
proof -
  have "c \<noteq> []" using assms(1) by (auto simp add: isabs_def startswith_def)
  then show ?thesis
    using normpath_join_dot [of c] assms(2) by (simp add: abspath_def isabs_def startswith_def)
qed

text \<open>
  C6: when the sparse generator is run and exits with a non-zero status, code generation
  raises \<open>SystemExit 1\<close>; the only program started is the sparse generator, so the dense
  generator is not run; and the state left behind differs from the state before only in
  the message on standard error and in the record of that one program, so the working
  directory is the one the step started in. The hypotheses say that the step starts in a
  canonical working directory, that the directory of the generator scripts exists and
  that the sparse generator starts and exits with a status other than 0.
\<close>

theorem generate_stops_when_sparse_fails:
  assumes "canonical_cwd w"
    and "abspath (cwd w) (path_join base [''scripts'', ''cpu'']) \<in> dirs w"
    and "run_program h \<lparr>argv = sparse_cmd h base,
                          run_cwd = abspath (cwd w) (path_join base [''scripts'', ''cpu'']),
                          run_env = environ w\<rparr> = Inr (status, out)"
    and "status \<noteq> 0"
  shows "generate_ipex_cpu_aten_code h base w =
           (Inl (SystemExit 1),
            w\<lparr>stderr := stderr w @ [failed_to_run (sparse_cmd h base)],
              started := started w @
                [\<lparr>argv = sparse_cmd h base,
                  run_cwd = abspath (cwd w) (path_join base [''scripts'', ''cpu'']),
                  run_env = environ w\<rparr>]\<rparr>)"
proof -
  let ?d = "abspath (cwd w) (path_join base [''scripts'', ''cpu''])"
  have c2: "cwd w \<in> dirs w" and c3: "isabs (cwd w)" and c4: "normpath (cwd w) = cwd w"
    using assms(1) by (simp_all add: canonical_cwd_def)
  have c1: "abspath (cwd w) ''.'' = cwd w"
    using c3 c4 by (rule abspath_curdir)
  have rest: "abspath ?d (cwd w) = cwd w"
    using c3 c4 by (simp add: abspath_def)
  show ?thesis
    using assms(2,3,4) c1 c2 rest
    by (simp add: generate_ipex_cpu_aten_code_def chdir_def subprocess_call_def spawn_def
                  act_defs Let_def)
qed

theorem generate_stops_when_sparse_fails_witness:
  "canonical_cwd (example_world Map.empty)
   \<and> abspath (cwd (example_world Map.empty))
        (path_join (base_dir failing_sparse_host) [''scripts'', ''cpu''])
       \<in> dirs (example_world Map.empty)
   \<and> run_program failing_sparse_host
        \<lparr>argv = sparse_cmd failing_sparse_host (base_dir failing_sparse_host),
         run_cwd = abspath (cwd (example_world Map.empty))
                     (path_join (base_dir failing_sparse_host) [''scripts'', ''cpu'']),
         run_env = environ (example_world Map.empty)\<rparr> = Inr (2, [])
   \<and> (2::int) \<noteq> 0
   \<and> fst (generate_ipex_cpu_aten_code failing_sparse_host (base_dir failing_sparse_host)
             (example_world Map.empty)) = Inl (SystemExit 1)
   \<and> cwd (snd (generate_ipex_cpu_aten_code failing_sparse_host (base_dir failing_sparse_host)
             (example_world Map.empty))) = ''/work''
   \<and> map argv (started (snd (generate_ipex_cpu_aten_code failing_sparse_host
             (base_dir failing_sparse_host) (example_world Map.empty))))
       = [[''./gen-sparse-cpu-ops.sh'', ''/work/torch_ipex/csrc/cpu'', ''/py/torch'',
           ''/work/scripts/cpu/pytorch_headers'']]"
proof -
  let ?w = "example_world Map.empty"
  let ?b = "base_dir failing_sparse_host"
  have h1: "canonical_cwd ?w" by code_simp
  have h2: "abspath (cwd ?w) (path_join ?b [''scripts'', ''cpu'']) \<in> dirs ?w" by code_simp
  have h3: "run_program failing_sparse_host
        \<lparr>argv = sparse_cmd failing_sparse_host ?b,
         run_cwd = abspath (cwd ?w) (path_join ?b [''scripts'', ''cpu'']),
         run_env = environ ?w\<rparr> = Inr (2, [])"
    by (simp add: failing_sparse_host_def example_host_def sparse_cmd_def)
  have h4: "(2::int) \<noteq> 0" by simp
  have h5: "cwd ?w = ''/work''" by (simp add: example_world_def)
  have h6: "started ?w = []" by (simp add: example_world_def)
  have h7: "sparse_cmd failing_sparse_host ?b =
     [''./gen-sparse-cpu-ops.sh'', ''/work/torch_ipex/csrc/cpu'', ''/py/torch'',
           ''/work/scripts/cpu/pytorch_headers'']" by code_simp
  show ?thesis
    using generate_stops_when_sparse_fails [OF h1 h2 h3 h4] h1 h2 h3 h5 h6 h7
    by simp
qed

section \<open>Properties of backend selection\<close>

text \<open>
  What the resolver does when it is called: cpu for an unset or blank value, the value
  itself for cpu and gpu, and otherwise a message on standard output and \<open>SystemExit 1\<close>.
  Blank covers the white space of Unicode, as the lemma on blank values shows for
  U+0020, U+00A0 (the bytes C2 A0), a mixture of tab, U+2028 and U+0085, and U+3000. The
  single byte A0 is not the encoding of any character: Python decodes it to a lone
  surrogate, which is not white space, and the resolver rejects the value.
\<close>

lemma get_env_backend_cases:
  "get_env_backend w =
     (case environ w ''IPEX_BACKEND'' of
        None \<Rightarrow> (Inr ''cpu'', w)
      | Some v \<Rightarrow>
          if strip v = [] then (Inr ''cpu'', w)
          else if v = ''cpu'' \<or> v = ''gpu'' then (Inr v, w)
          else (Inl (SystemExit 1),
                w\<lparr>stdout := stdout w @
                   [''Intel PyTorch Extension only supports CPU and GPU now.'']\<rparr>))"
  by (auto simp add: get_env_backend_def act_defs Let_def split: option.splits)

lemma get_env_backend_rejects_tpu:
  "get_env_backend (example_world [''IPEX_BACKEND'' \<mapsto> ''tpu'']) =
     (Inl (SystemExit 1),
      (example_world [''IPEX_BACKEND'' \<mapsto> ''tpu''])
        \<lparr>stdout := [''Intel PyTorch Extension only supports CPU and GPU now.'']\<rparr>)"
  by (simp add: get_env_backend_cases example_world_def str_defs)

lemma get_env_backend_blank_values:
  "fst (get_env_backend (example_world [''IPEX_BACKEND'' \<mapsto> '' ''])) = Inr ''cpu''
   \<and> fst (get_env_backend (example_world [''IPEX_BACKEND'' \<mapsto> [CHR 0xC2, CHR 0xA0]]))
       = Inr ''cpu''
   \<and> fst (get_env_backend (example_world
           [''IPEX_BACKEND'' \<mapsto> [CHR 0x09, CHR 0xE2, CHR 0x80, CHR 0xA8, CHR 0xC2, CHR 0x85]]))
       = Inr ''cpu''
   \<and> fst (get_env_backend (example_world [''IPEX_BACKEND'' \<mapsto> [CHR 0xE3, CHR 0x80, CHR 0x80]]))
       = Inr ''cpu''"
  by (simp add: get_env_backend_cases example_world_def str_defs)

lemma get_env_backend_lone_byte:
  "fst (get_env_backend (example_world [''IPEX_BACKEND'' \<mapsto> [CHR 0xA0]])) = Inl (SystemExit 1)"
  by (simp add: get_env_backend_cases example_world_def str_defs)

lemma get_env_backend_keeps:
  "descriptors (snd (get_env_backend w)) = descriptors w"
  by (simp add: get_env_backend_cases split: option.splits)

text \<open>
  C1 says that on every run of the build a value of \<^verbatim>\<open>IPEX_BACKEND\<close> outside the
  accepted ones ends the process with a non-zero status before code generation or any
  build program is started. No statement of the script calls the resolver: on the example
  machine with \<^verbatim>\<open>IPEX_BACKEND=tpu\<close> the build run prints its own line and nothing else,
  starts both generators, \<^verbatim>\<open>cmake\<close> and \<^verbatim>\<open>make\<close>, and returns normally.
\<close>

theorem build_run_never_validates_backend:
  "environ (example_world [''IPEX_BACKEND'' \<mapsto> ''tpu'']) ''IPEX_BACKEND'' = Some ''tpu''
   \<and> fst (IPEXBuild_run example_host (ext_modules example_host)
          (example_world [''IPEX_BACKEND'' \<mapsto> ''tpu''])) = Inr (ext_modules example_host)
   \<and> stdout (snd (IPEXBuild_run example_host (ext_modules example_host)
          (example_world [''IPEX_BACKEND'' \<mapsto> ''tpu'']))) = [''run'']
   \<and> map argv (started (snd (IPEXBuild_run example_host (ext_modules example_host)
          (example_world [''IPEX_BACKEND'' \<mapsto> ''tpu''])))) =
       [[''./gen-sparse-cpu-ops.sh'', ''/work/torch_ipex/csrc/cpu'', ''/py/torch'',
         ''/work/scripts/cpu/pytorch_headers''],
        [''./gen-dense-cpu-ops.sh'', ''/work/torch_ipex/csrc/cpu'', ''/py/torch''],
        [''/usr/bin/cmake'', ''/work'', ''-DCMAKE_BUILD_TYPE=Release'',
         ''-DPYTORCH_INSTALL_DIR=/py/torch'', ''-DPYTHON_EXECUTABLE=/usr/bin/python'',
         ''-DCMAKE_INSTALL_PREFIX=/work/build/lib'',
         ''-DCMAKE_LIBRARY_OUTPUT_DIRECTORY=/work/build/lib'',
         ''-DPYTHON_INCLUDE_DIR=/usr/include/python3''],
        [''make'', ''-j'', ''8'']]"
  by code_simp

section \<open>Properties of the extension descriptor\<close>














section \<open>Properties of the clean hook\<close>

lemma pat_match_cases:
  "pat_match l = (if is_marker l then Some (Some '' BEGIN NOT-CLEAN-FILES '')
                  else if is_comment l then Some None else None)"
  by (cases l) (auto simp add: pat_match_def is_marker_def is_comment_def startswith_def)

lemma globbed_append: "globbed (xs @ ys) = globbed xs @ globbed ys"
  by (induction xs rule: globbed.induct) simp_all

lemma deleted_append: "deleted (xs @ ys) = deleted xs @ deleted ys"
  by (induction xs rule: deleted.induct) simp_all

text \<open>
  The inner loop deletes each name it is given, in order, and logs it; the outer loop
  sweeps exactly the patterns it reads, which are the lines before the first marker that
  are no comments.
\<close>

lemma remove_each_result:
  "fst (remove_each ops fnames (fs, log)) = foldl (delete_entry ops) fs fnames
   \<and> globbed (snd (remove_each ops fnames (fs, log))) = globbed log
   \<and> deleted (snd (remove_each ops fnames (fs, log))) = deleted log @ fnames"
  by (induction fnames arbitrary: fs log)
     (auto simp add: globbed_append deleted_append delete_entry_def split: option.splits)

lemma clean_loop_result:
  "fst (clean_loop ops ls (fs, log)) = sweep ops fs (patterns_read ls)
   \<and> globbed (snd (clean_loop ops ls (fs, log))) = globbed log @ patterns_read ls
   \<and> deleted (snd (clean_loop ops ls (fs, log))) = deleted log @ targets ops fs (patterns_read ls)"
proof (induction ls arbitrary: fs log)
  case Nil
  then show ?case by (simp add: patterns_read_def sweep_def)
next
  case (Cons l ls)
  show ?case
  proof (cases "is_marker l")
    case True
    then show ?thesis by (simp add: pat_match_cases truthy_def patterns_read_def sweep_def)
  next
    case False
    note nm = this
    show ?thesis
    proof (cases "is_comment l")
      case True
      then show ?thesis
        using nm Cons.IH [of fs log]
        by (simp add: pat_match_cases truthy_def patterns_read_def)
    next
      case False
      obtain fs' log' where
        r: "remove_each ops (glob_glob ops fs l) (fs, log @ [Globbed l]) = (fs', log')"
        by (cases "remove_each ops (glob_glob ops fs l) (fs, log @ [Globbed l])") auto
      have f: "fs' = delete_matches ops fs l"
        and g: "globbed log' = globbed log @ [l]"
        and d: "deleted log' = deleted log @ glob_glob ops fs l"
        using remove_each_result [of ops "glob_glob ops fs l" fs "log @ [Globbed l]"] r
        by (simp_all add: globbed_append deleted_append delete_matches_def)
      have p: "patterns_read (l # ls) = l # patterns_read ls"
        using nm False by (simp add: patterns_read_def)
      show ?thesis
        using nm False Cons.IH [of fs' log'] r
        by (simp add: pat_match_cases p f g d sweep_def)
    qed
  qed
qed

lemma IPEXClean_run_result:
  assumes "read_text ops fs ''.gitignore'' = Inr ignores"
  shows "IPEXClean_run ops fs =
     (case distutils_clean_run ops (fst (clean_loop ops (ignore_lines ignores) (fs, []))) of
        Inl e \<Rightarrow> (Inl e, fst (clean_loop ops (ignore_lines ignores) (fs, [])),
                  snd (clean_loop ops (ignore_lines ignores) (fs, [])))
      | Inr fs2 \<Rightarrow> (Inr (), fs2, snd (clean_loop ops (ignore_lines ignores) (fs, []))))"
  using assms by (simp add: IPEXClean_run_def split: prod.splits sum.splits)


text \<open>
  A line of white space only does not begin with \<open>#\<close>, so the hook takes it for a
  pattern.
\<close>

lemma rstrip_rev_no_hash: "rstrip_rev xs = [] \<Longrightarrow> CHR ''#'' \<notin> set xs"
  by (induction xs rule: rstrip_rev.induct)
     (auto simp add: is_space_def is_space2_def is_space3_def split: if_splits)

lemma lstrip_hash: "lstrip (CHR ''#'' # r) = CHR ''#'' # r"
proof (cases r)
  case Nil
  then show ?thesis by (simp add: is_space_def)
next
  case (Cons b r')
  then show ?thesis
    by (cases r') (simp_all add: is_space_def is_space2_def is_space3_def)
qed

lemma blank_not_comment: "strip l = [] \<Longrightarrow> \<not> is_comment l"
proof
  assume b: "strip l = []" and c: "is_comment l"
  from c obtain r where l: "l = CHR ''#'' # r"
    by (cases l) (auto simp add: is_comment_def startswith_def)
  have "rstrip_rev (rev l) = []"
    using b by (simp add: strip_def rstrip_def l lstrip_hash del: lstrip.simps)
  then have "CHR ''#'' \<notin> set (rev l)" by (rule rstrip_rev_no_hash)
  then show False by (simp add: l)
qed




text \<open>
  C9, as stated, says that a blank line is never used as a deletion pattern. A line of
  two spaces is blank and is not dropped by \<^verbatim>\<open>filter(None, ...)\<close>: the hook globs it and
  deletes the entry of that name.
\<close>

theorem clean_globs_blank_line_counterexample:
  "ignore_lines blank_line_gitignore = [''  '', ''a.o'']
   \<and> strip ''  '' = []
   \<and> IPEXClean_run (flat_ops blank_line_gitignore) [''  '', ''a.o'', ''b.c''] =
       (Inr (), [''b.c''],
        [Globbed ''  '', Removed ''  '', Globbed ''a.o'', Removed ''a.o''])"
  by code_simp

text \<open>
  C9, amended: the loop stops at a line that begins with \<^verbatim>\<open># BEGIN NOT-CLEAN-FILES \<close>,
  trailing space included, and reads nothing after it; the line
  \<^verbatim>\<open># BEGIN NOT-CLEAN-FILES\<close> without the space is passed over like any other line that
  begins with \<open>#\<close>, and the loop goes on; where no line begins with the marker, every
  line that does not begin with \<open>#\<close> is globbed, so nothing but the marker stops the
  loop; a pattern that the hook globs is never empty and never begins with \<open>#\<close>. Every
  other line before the first marker is used as a deletion pattern: the patterns globbed
  are exactly those lines and the names deleted are exactly what their globs return. A
  line of white space only is among them: it is not empty, and it is globbed.
\<close>

theorem clean_marker_and_comments:
  "(startswith l ''# BEGIN NOT-CLEAN-FILES '' \<longrightarrow> clean_loop ops (l # rest) st = st)
   \<and> clean_loop ops (''# BEGIN NOT-CLEAN-FILES'' # rest) st = clean_loop ops rest st
   \<and> (startswith l ''#'' \<and> \<not> startswith l ''# BEGIN NOT-CLEAN-FILES ''
        \<longrightarrow> clean_loop ops (l # rest) st = clean_loop ops rest st)
   \<and> ((\<forall>x \<in> set ls. \<not> startswith x ''# BEGIN NOT-CLEAN-FILES '') \<longrightarrow>
        globbed (snd (clean_loop ops ls (fs, []))) = filter (\<lambda>x. \<not> startswith x ''#'') ls)
   \<and> (read_text ops fs ''.gitignore'' = Inr ignores \<longrightarrow>
        (\<forall>p \<in> set (globbed (snd (snd (IPEXClean_run ops fs)))).
           p \<noteq> [] \<and> \<not> startswith p ''#'' \<and> p \<in> set (split_on CHR 0x0A ignores)))
   \<and> (read_text ops fs ''.gitignore'' = Inr ignores \<longrightarrow>
        globbed (snd (snd (IPEXClean_run ops fs))) =
          filter (\<lambda>x. \<not> startswith x ''#'')
            (takeWhile (\<lambda>x. \<not> startswith x ''# BEGIN NOT-CLEAN-FILES '') (ignore_lines ignores))
        \<and> deleted (snd (snd (IPEXClean_run ops fs))) =
          targets ops fs (filter (\<lambda>x. \<not> startswith x ''#'')
            (takeWhile (\<lambda>x. \<not> startswith x ''# BEGIN NOT-CLEAN-FILES '') (ignore_lines ignores))))
   \<and> (read_text ops fs ''.gitignore'' = Inr ignores \<longrightarrow>
        (\<forall>x \<in> set (takeWhile (\<lambda>x. \<not> startswith x ''# BEGIN NOT-CLEAN-FILES '')
                      (ignore_lines ignores)).
           strip x = [] \<longrightarrow> x \<noteq> [] \<and> x \<in> set (globbed (snd (snd (IPEXClean_run ops fs))))))"
proof -
  obtain fs0 log0 where st: "st = (fs0, log0)" by (cases st)
  have a: "startswith l ''# BEGIN NOT-CLEAN-FILES '' \<longrightarrow> clean_loop ops (l # rest) st = st"
    by (simp add: st pat_match_cases truthy_def is_marker_def)
  have b: "clean_loop ops (''# BEGIN NOT-CLEAN-FILES'' # rest) st = clean_loop ops rest st"
    by (simp add: st pat_match_def truthy_def startswith_def)
  have c: "startswith l ''#'' \<and> \<not> startswith l ''# BEGIN NOT-CLEAN-FILES ''
        \<longrightarrow> clean_loop ops (l # rest) st = clean_loop ops rest st"
    by (simp add: st pat_match_cases truthy_def is_marker_def is_comment_def)
  have pr: "\<And>xs. patterns_read xs = filter (\<lambda>x. \<not> startswith x ''#'')
            (takeWhile (\<lambda>x. \<not> startswith x ''# BEGIN NOT-CLEAN-FILES '') xs)"
    by (simp add: patterns_read_def is_comment_def is_marker_def)
  have d: "(\<forall>x \<in> set ls. \<not> startswith x ''# BEGIN NOT-CLEAN-FILES '') \<longrightarrow>
        globbed (snd (clean_loop ops ls (fs, []))) = filter (\<lambda>x. \<not> startswith x ''#'') ls"
  proof
    assume "\<forall>x \<in> set ls. \<not> startswith x ''# BEGIN NOT-CLEAN-FILES ''"
    then have tw: "takeWhile (\<lambda>x. \<not> startswith x ''# BEGIN NOT-CLEAN-FILES '') ls = ls"
      by simp
    show "globbed (snd (clean_loop ops ls (fs, []))) = filter (\<lambda>x. \<not> startswith x ''#'') ls"
      using clean_loop_result [of ops ls fs "[]"] unfolding pr tw by simp
  qed
  have f: "read_text ops fs ''.gitignore'' = Inr ignores \<longrightarrow>
        globbed (snd (snd (IPEXClean_run ops fs))) =
          filter (\<lambda>x. \<not> startswith x ''#'')
            (takeWhile (\<lambda>x. \<not> startswith x ''# BEGIN NOT-CLEAN-FILES '') (ignore_lines ignores))
        \<and> deleted (snd (snd (IPEXClean_run ops fs))) =
          targets ops fs (filter (\<lambda>x. \<not> startswith x ''#'')
            (takeWhile (\<lambda>x. \<not> startswith x ''# BEGIN NOT-CLEAN-FILES '') (ignore_lines ignores)))"
  proof
    assume r: "read_text ops fs ''.gitignore'' = Inr ignores"
    show "globbed (snd (snd (IPEXClean_run ops fs))) =
          filter (\<lambda>x. \<not> startswith x ''#'')
            (takeWhile (\<lambda>x. \<not> startswith x ''# BEGIN NOT-CLEAN-FILES '') (ignore_lines ignores))
        \<and> deleted (snd (snd (IPEXClean_run ops fs))) =
          targets ops fs (filter (\<lambda>x. \<not> startswith x ''#'')
            (takeWhile (\<lambda>x. \<not> startswith x ''# BEGIN NOT-CLEAN-FILES '') (ignore_lines ignores)))"
      using clean_loop_result [of ops "ignore_lines ignores" fs "[]"] unfolding pr
      by (simp add: IPEXClean_run_result [OF r] split: sum.splits)
  qed
  have e: "read_text ops fs ''.gitignore'' = Inr ignores \<longrightarrow>
        (\<forall>p \<in> set (globbed (snd (snd (IPEXClean_run ops fs)))).
           p \<noteq> [] \<and> \<not> startswith p ''#'' \<and> p \<in> set (split_on CHR 0x0A ignores))"
  proof
    assume r: "read_text ops fs ''.gitignore'' = Inr ignores"
    have "set (globbed (snd (snd (IPEXClean_run ops fs))))
            \<subseteq> {x \<in> set (ignore_lines ignores). \<not> startswith x ''#''}"
      using f r set_takeWhileD by fastforce
    then show "\<forall>p \<in> set (globbed (snd (snd (IPEXClean_run ops fs)))).
           p \<noteq> [] \<and> \<not> startswith p ''#'' \<and> p \<in> set (split_on CHR 0x0A ignores)"
      by (auto simp add: ignore_lines_def)
  qed
  have g: "read_text ops fs ''.gitignore'' = Inr ignores \<longrightarrow>
        (\<forall>x \<in> set (takeWhile (\<lambda>x. \<not> startswith x ''# BEGIN NOT-CLEAN-FILES '')
                      (ignore_lines ignores)).
           strip x = [] \<longrightarrow> x \<noteq> [] \<and> x \<in> set (globbed (snd (snd (IPEXClean_run ops fs)))))"
  proof (intro impI ballI)
    fix x
    assume r: "read_text ops fs ''.gitignore'' = Inr ignores"
      and x: "x \<in> set (takeWhile (\<lambda>x. \<not> startswith x ''# BEGIN NOT-CLEAN-FILES '')
                      (ignore_lines ignores))"
      and s: "strip x = []"
    have "x \<in> set (ignore_lines ignores)" using x by (rule set_takeWhileD [THEN conjunct1])
    then have ne: "x \<noteq> []" by (simp add: ignore_lines_def)
    have "\<not> startswith x ''#''" using blank_not_comment [OF s] by (simp add: is_comment_def)
    then have "x \<in> set (globbed (snd (snd (IPEXClean_run ops fs))))"
      using f r x by simp
    then show "x \<noteq> [] \<and> x \<in> set (globbed (snd (snd (IPEXClean_run ops fs))))"
      using ne by simp
  qed
  show ?thesis using a b c d e f g by blast
qed


theorem clean_marker_and_comments_witness:
  "ignore_lines commented_gitignore =
     [''a.o'', ''  '', ''# BEGIN NOT-CLEAN-FILES'', ''b.?'', ''#c.o'',
      ''# BEGIN NOT-CLEAN-FILES '', ''d.o'']
   \<and> startswith ''# BEGIN NOT-CLEAN-FILES '' ''# BEGIN NOT-CLEAN-FILES ''
   \<and> clean_loop (flat_ops commented_gitignore) (''# BEGIN NOT-CLEAN-FILES '' # [''d.o''])
        ([''d.o''], []) = ([''d.o''], [])
   \<and> startswith ''#c.o'' ''#'' \<and> \<not> startswith ''#c.o'' ''# BEGIN NOT-CLEAN-FILES ''
   \<and> \<not> startswith ''a.o'' ''# BEGIN NOT-CLEAN-FILES ''
   \<and> \<not> startswith ''  '' ''# BEGIN NOT-CLEAN-FILES ''
   \<and> \<not> startswith ''# BEGIN NOT-CLEAN-FILES'' ''# BEGIN NOT-CLEAN-FILES ''
   \<and> \<not> startswith ''b.?'' ''# BEGIN NOT-CLEAN-FILES ''
   \<and> globbed (snd (clean_loop (flat_ops commented_gitignore)
         [''a.o'', ''  '', ''# BEGIN NOT-CLEAN-FILES'', ''b.?'', ''#c.o'']
         ([''a.o'', ''b.c'', ''d.o'', ''  ''], [])))
       = [''a.o'', ''  '', ''b.?'']
   \<and> read_text (flat_ops commented_gitignore) [''a.o'', ''b.c'', ''d.o'', ''  ''] ''.gitignore''
       = Inr commented_gitignore
   \<and> strip ''  '' = []
   \<and> ''  '' \<in> set (globbed (snd (snd
         (IPEXClean_run (flat_ops commented_gitignore) [''a.o'', ''b.c'', ''d.o'', ''  '']))))
   \<and> deleted (snd (snd
         (IPEXClean_run (flat_ops commented_gitignore) [''a.o'', ''b.c'', ''d.o'', ''  ''])))
       = [''a.o'', ''  '', ''b.c'']
   \<and> IPEXClean_run (flat_ops commented_gitignore) [''a.o'', ''b.c'', ''d.o'', ''  ''] =
       (Inr (), [''d.o''],
        [Globbed ''a.o'', Removed ''a.o'', Globbed ''  '', Removed ''  '',
         Globbed ''b.?'', Removed ''b.c''])"
proof -
  let ?ops = "flat_ops commented_gitignore"
  let ?fs = "[''a.o'', ''b.c'', ''d.o'', ''  '']"
  let ?ls = "[''a.o'', ''  '', ''# BEGIN NOT-CLEAN-FILES'', ''b.?'', ''#c.o'']"
  have h0: "ignore_lines commented_gitignore =
     [''a.o'', ''  '', ''# BEGIN NOT-CLEAN-FILES'', ''b.?'', ''#c.o'',
      ''# BEGIN NOT-CLEAN-FILES '', ''d.o'']"
    by code_simp
  have h1: "startswith ''# BEGIN NOT-CLEAN-FILES '' ''# BEGIN NOT-CLEAN-FILES ''"
    by (simp add: startswith_def)
  have h2: "startswith ''#c.o'' ''#'' \<and> \<not> startswith ''#c.o'' ''# BEGIN NOT-CLEAN-FILES ''"
    by (simp add: startswith_def)
  have h3: "\<forall>x \<in> set ?ls. \<not> startswith x ''# BEGIN NOT-CLEAN-FILES ''"
    by (simp add: startswith_def)
  have h4: "read_text ?ops ?fs ''.gitignore'' = Inr commented_gitignore"
    by (simp add: flat_ops_def)
  have h5: "filter (\<lambda>x. \<not> startswith x ''#'') ?ls = [''a.o'', ''  '', ''b.?'']"
    by (simp add: startswith_def)
  have h6: "IPEXClean_run ?ops ?fs =
       (Inr (), [''d.o''],
        [Globbed ''a.o'', Removed ''a.o'', Globbed ''  '', Removed ''  '',
         Globbed ''b.?'', Removed ''b.c''])"
    by code_simp
  have h7: "strip ''  '' = []" by code_simp
  show ?thesis
    using clean_marker_and_comments
            [of "''# BEGIN NOT-CLEAN-FILES ''" ?ops "[''d.o'']" "([''d.o''], [])" ?ls ?fs
                commented_gitignore]
          h0 h1 h2 h3 h4 h6 h7
    unfolding h5 by simp
qed

end
